theory Spec2Isabelle
  imports Complex_Main "HOL-Library.Sublist" "HOL-Library.Multiset"
begin

section \<open>Values exchanged with the host and with Azure\<close>

text \<open>
  The wizard page \<^verbatim>\<open>AzureSettingsPage\<close> keeps three dropdowns (account, subscription,
  server), one loading indicator for each, two lookup maps and the wizard's model.
  JavaScript strings are modelled as HOL strings; of JavaScript's line terminators only
  LF and CR exist among these characters. \<^verbatim>\<open>undefined\<close> is \<open>None\<close>.
\<close>

record CategoryValue =
  displayName :: string
  name :: string

text \<open>An account of the credential store; only \<^verbatim>\<open>displayInfo.displayName\<close> is read.\<close>

record Account =
  account_key :: string
  account_displayName :: string

text \<open>A subscription as the resource provider returns it: \<^verbatim>\<open>id\<close>, \<^verbatim>\<open>name\<close>, \<^verbatim>\<open>tenant\<close>.\<close>

record AzureResourceSubscription =
  subscription_id :: string
  subscription_name :: string
  tenant :: "string option"

text \<open>One entry \<^verbatim>\<open>{name, id}\<close> of the \<^verbatim>\<open>value\<close> array of a server-list response.\<close>

record ServerResource =
  server_name :: string
  server_id :: string

text \<open>
  An HTTP response: its status and its body. The body is read only as
  \<^verbatim>\<open>response.data.value\<close>; \<open>None\<close> stands for a body without a \<^verbatim>\<open>value\<close> array.
\<close>

record AxiosResponse =
  status :: nat
  data :: "ServerResource list option"

record AxiosRequestConfig =
  headers :: "(string \<times> string) list"
  validateStatus :: "nat \<Rightarrow> bool"

datatype error =
  TypeError
  | SyntaxError
  | Rejected string
  | BadStatus nat

text \<open>The fields of \<^verbatim>\<open>DeployAzureSQLDBWizardModel\<close> that the page and the wizard use.\<close>

record DeployAzureSQLDBWizardModel =
  azureAccount :: "Account option"
  azureSubscription :: "string option"
  azureSubscriptionDisplayName :: "string option"
  securityToken :: "string option"
  azureServerName :: "string option"
  azureResouceGroup :: "string option"

record DropDownComponent =
  dropdown_value :: "CategoryValue option"
  dropdown_values :: "CategoryValue list"

text \<open>What leaves the extension: one constructor for each awaited external call.\<close>

datatype request =
  GetAllAccounts
  | GetAzurecoreApi
  | GetSubscriptions "Account option"
  | GetAccountSecurityToken "Account option" "string option"
  | HttpGet string

record page =
  model :: DeployAzureSQLDBWizardModel
  wizardMessage :: string
  liveValidation :: bool
  azureAccountsDropdown :: DropDownComponent
  azureAccountsLoader_loading :: bool
  azureSubscriptionsDropdown :: DropDownComponent
  azureSubscriptionLoader_loading :: bool
  serverGroupDropdown :: DropDownComponent
  serverGroupLoader_loading :: bool
  accountsMap :: "string \<rightharpoonup> Account"
  subscriptionsMap :: "string \<rightharpoonup> AzureResourceSubscription"

text \<open>
  The state is the page together with a history: every external call is recorded when it
  is issued, with the page as it stands at that moment. The history is not a field of the
  source; it makes "which request was made, and what was visible then" a value.
\<close>

record state = page +
  issued :: "(request \<times> page) list"

text \<open>
  A method either returns or throws; the mutations done before a throw stay, so both
  outcomes carry the state.
\<close>

datatype 'r outcome =
  Returns 'r state
  | Throws error state

fun state_of :: "'r outcome \<Rightarrow> state" where
  "state_of (Returns r s) = s"
| "state_of (Throws e s) = s"

fun returned :: "'r outcome \<Rightarrow> 'r option" where
  "returned (Returns r s) = Some r"
| "returned (Throws e s) = None"

fun thrown :: "'r outcome \<Rightarrow> error option" where
  "thrown (Returns r s) = None"
| "thrown (Throws e s) = Some e"

text \<open>
  The external collaborators, one result for each argument: the credential store, the
  resource provider, the network under axios, and the host's locale functions. A rejected
  promise is \<open>Inl\<close>.
\<close>

record env =
  getAllAccounts :: "error + Account list"
  getAzurecoreApi :: "error + unit"
  getSubscriptions :: "Account option \<Rightarrow> error + AzureResourceSubscription list option"
  getAccountSecurityToken :: "Account option \<Rightarrow> string option \<Rightarrow> error + string option"
  transport :: "string \<Rightarrow> (string \<times> string) list \<Rightarrow> string + AxiosResponse"
  toLocaleLowerCase :: "string \<Rightarrow> string"
  localeCompare :: "string \<Rightarrow> string \<Rightarrow> int"

definition issue :: "request \<Rightarrow> state \<Rightarrow> state" where
  "issue r s = s\<lparr>issued := issued s @ [(r, page.truncate s)]\<rparr>"

section \<open>Host components\<close>

text \<open>
  Modelled from the spec: the dropdown component of the host and the wizard helpers
  \<^verbatim>\<open>addDropdownValues\<close> and \<^verbatim>\<open>showErrorMessage\<close> are not among the sources. The
  spec says that the candidate list replaces the field's displayed options and that the
  first candidate becomes the default selection; a field with no candidates shows no
  selectable value. A message is displayed to the user by storing it.
\<close>

definition updateProperties_values :: "DropDownComponent \<Rightarrow> CategoryValue list \<Rightarrow> DropDownComponent" where
  "updateProperties_values d vs =
     d\<lparr>dropdown_values := vs,
       dropdown_value := (case vs of [] \<Rightarrow> None | v # _ \<Rightarrow> Some v)\<rparr>"

definition addDropdownValues :: "DropDownComponent \<Rightarrow> CategoryValue list \<Rightarrow> DropDownComponent" where
  "addDropdownValues component vs = updateProperties_values component vs"

definition showErrorMessage :: "string \<Rightarrow> state \<Rightarrow> state" where
  "showErrorMessage message s = s\<lparr>wizardMessage := message\<rparr>"

section \<open>Library functions of JavaScript used by the page\<close>

definition lineTerminator :: "char \<Rightarrow> bool" where
  "lineTerminator c = (c = CHR 0x0A \<or> c = CHR 0x0D)"

text \<open>
  \<^verbatim>\<open>s.replace(RegExp('^(.*?)/resourceGroups/'), '')\<close>: the match starts at the start of the
  string, the lazy group takes as few characters as possible, none of them a line
  terminator, and the marker follows. \<open>after_lazy_prefix m s\<close> is what follows the match.
\<close>

fun after_lazy_prefix :: "string \<Rightarrow> string \<Rightarrow> string option" where
  "after_lazy_prefix m [] = (if m = [] then Some [] else None)"
| "after_lazy_prefix m (c # cs) =
     (if prefix m (c # cs) then Some (drop (length m) (c # cs))
      else if lineTerminator c then None
      else after_lazy_prefix m cs)"

definition replace_upto_resourceGroups :: "string \<Rightarrow> string" where
  "replace_upto_resourceGroups s =
     (case after_lazy_prefix ''/resourceGroups/'' s of None \<Rightarrow> s | Some rest \<Rightarrow> rest)"

text \<open>
  \<^verbatim>\<open>s.replace(RegExp('/providers/.*'), '')\<close>: the first occurrence of the marker and
  everything after it up to the next line terminator is removed.
\<close>

fun replace_from_providers :: "string \<Rightarrow> string" where
  "replace_from_providers [] = []"
| "replace_from_providers (c # cs) =
     (if prefix ''/providers/'' (c # cs)
      then dropWhile (\<lambda>x. \<not> lineTerminator x) (drop (length ''/providers/'') (c # cs))
      else c # replace_from_providers cs)"

text \<open>The expression both writers of \<^verbatim>\<open>azureResouceGroup\<close> apply to the server's id.\<close>

definition resourceGroupOf :: "string \<Rightarrow> string" where
  "resourceGroupOf server = replace_from_providers (replace_upto_resourceGroups server)"

text \<open>\<^verbatim>\<open>Array.prototype.join\<close>.\<close>

fun join :: "string \<Rightarrow> string list \<Rightarrow> string" where
  "join sep [] = []"
| "join sep [x] = x"
| "join sep (x # y # zs) = x @ sep @ join sep (y # zs)"

text \<open>
  \<^verbatim>\<open>Array.prototype.sort\<close> with a comparison function: a stable sort. An element goes
  before the first element it does not compare greater than.
\<close>

fun insert_sorted :: "('a \<Rightarrow> 'a \<Rightarrow> int) \<Rightarrow> 'a \<Rightarrow> 'a list \<Rightarrow> 'a list" where
  "insert_sorted cmp x [] = [x]"
| "insert_sorted cmp x (y # ys) =
     (if cmp x y \<le> 0 then x # y # ys else y # insert_sorted cmp x ys)"

definition array_sort :: "('a \<Rightarrow> 'a \<Rightarrow> int) \<Rightarrow> 'a list \<Rightarrow> 'a list" where
  "array_sort cmp xs = foldr (insert_sorted cmp) xs []"

section \<open>The wizard: getRequest\<close>

text \<open>
  \<^verbatim>\<open>axios.get\<close>: the network delivers a response or fails (\<open>Inl\<close>, with a reason); a
  delivered response whose status the configuration's \<^verbatim>\<open>validateStatus\<close> refuses is turned
  into a rejection. \<open>BadStatus\<close> has no other origin.
\<close>

definition axios_get :: "env \<Rightarrow> string \<Rightarrow> AxiosRequestConfig \<Rightarrow> error + AxiosResponse" where
  "axios_get e url config =
     (case transport e url (headers config) of
        Inl failure \<Rightarrow> Inl (Rejected failure)
      | Inr response \<Rightarrow>
          if validateStatus config (status response) then Inr response
          else Inl (BadStatus (status response)))"

definition requestConfig :: "string \<Rightarrow> AxiosRequestConfig" where
  "requestConfig token =
     \<lparr>headers = [(''Content-Type'', ''application/json''),
                 (''Authorization'', ''Bearer '' @ token)],
      validateStatus = (\<lambda>_. True)\<rparr>"

definition getRequest :: "env \<Rightarrow> string \<Rightarrow> state \<Rightarrow> AxiosResponse outcome" where
  "getRequest e url s =
     (case securityToken (model s) of
        None \<Rightarrow> Throws TypeError s
      | Some token \<Rightarrow>
          (let s1 = issue (HttpGet url) s in
           case axios_get e url (requestConfig token) of
             Inl err \<Rightarrow> Throws err s1
           | Inr response \<Rightarrow> Returns response s1))"

section \<open>The Azure settings page\<close>

subsection \<open>Validation and navigation\<close>

definition noServersMessage :: string where
  "noServersMessage =
     ''No servers found in current subscription.'' @ [CHR 0x0A] @
     ''Select a different subscription containing at least one server''"

text \<open>
  \<^verbatim>\<open>formValidation\<close> reads the display name of the server dropdown's value; with no value
  the property access throws.
\<close>

definition formValidation :: "state \<Rightarrow> string outcome" where
  "formValidation s =
     (case dropdown_value (serverGroupDropdown s) of
        None \<Rightarrow> Throws TypeError s
      | Some v \<Rightarrow>
          (let serverName = displayName v;
               errorMessage = (if serverName = ''No servers found'' then [noServersMessage] else [])
           in Returns (join [CHR 0x0A] errorMessage)
                (showErrorMessage (join [CHR 0x0A] errorMessage) s)))"

text \<open>The validator that \<^verbatim>\<open>onEnter\<close> registers, applied to \<^verbatim>\<open>pcInfo.newPage\<close> and \<^verbatim>\<open>pcInfo.lastPage\<close>.\<close>

definition onEnter_navigationValidator :: "state \<Rightarrow> int \<Rightarrow> int \<Rightarrow> bool outcome" where
  "onEnter_navigationValidator s newPage lastPage =
     (if newPage < lastPage then Returns True s
      else
        (let s1 = s\<lparr>liveValidation := True\<rparr> in
         case formValidation s1 of
           Throws err s2 \<Rightarrow> Throws err s2
         | Returns errorMessage s2 \<Rightarrow>
             if errorMessage \<noteq> [] then Returns False s2 else Returns True s2))"


subsection \<open>Servers\<close>

text \<open>A template string prints \<^verbatim>\<open>undefined\<close> for a value that is not set.\<close>

definition interpolate :: "string option \<Rightarrow> string" where
  "interpolate v = (case v of None \<Rightarrow> ''undefined'' | Some x \<Rightarrow> x)"

definition serversUrl :: "DeployAzureSQLDBWizardModel \<Rightarrow> string" where
  "serversUrl m =
     ''https://management.azure.com/subscriptions/'' @ interpolate (azureSubscription m) @
     ''/providers/Microsoft.Sql/servers?api-version=2019-06-01-preview''"

definition noServersFound :: CategoryValue where
  "noServersFound = \<lparr>displayName = ''No servers found'', name = []\<rparr>"

definition serverCategoryValue :: "ServerResource \<Rightarrow> CategoryValue" where
  "serverCategoryValue v = \<lparr>displayName = server_name v, name = server_id v\<rparr>"

text \<open>The two assignments after a server list has been shown (also made by the server dropdown's handler).\<close>

definition setServerSelection :: "CategoryValue \<Rightarrow> state \<Rightarrow> state" where
  "setServerSelection v s =
     s\<lparr>model := (model s)\<lparr>azureServerName := Some (displayName v),
                            azureResouceGroup := Some (resourceGroupOf (name v))\<rparr>\<rparr>"

definition populateServerGroupDropdown :: "env \<Rightarrow> state \<Rightarrow> unit outcome" where
  "populateServerGroupDropdown e s0 =
     (let s = s0\<lparr>serverGroupLoader_loading := True\<rparr>;
          currentSubscriptionValue = dropdown_value (azureSubscriptionsDropdown s)
      in
      if currentSubscriptionValue = None \<or> map_option displayName currentSubscriptionValue = Some []
      then Returns ()
             (s\<lparr>serverGroupDropdown := updateProperties_values (serverGroupDropdown s) [],
                serverGroupLoader_loading := False\<rparr>)
      else
        (case getRequest e (serversUrl (model s)) s of
           Throws err s1 \<Rightarrow> Throws err s1
         | Returns response s1 \<Rightarrow>
             (case data response of
                None \<Rightarrow> Throws TypeError s1
              | Some servers \<Rightarrow>
                  if length servers = 0
                  then Returns ()
                         (s1\<lparr>serverGroupDropdown :=
                               updateProperties_values (serverGroupDropdown s1) [noServersFound],
                             serverGroupLoader_loading := False\<rparr>)
                  else
                    (let s2 = s1\<lparr>serverGroupDropdown :=
                                   addDropdownValues (serverGroupDropdown s1)
                                     (map serverCategoryValue servers)\<rparr>;
                         s3 = (case dropdown_value (serverGroupDropdown s2) of
                                 None \<Rightarrow> s2
                               | Some v \<Rightarrow> setServerSelection v s2)
                     in Returns () (s3\<lparr>serverGroupLoader_loading := False\<rparr>)))))"


subsection \<open>Subscriptions\<close>

definition compareSubscriptions :: "env \<Rightarrow> AzureResourceSubscription \<Rightarrow> AzureResourceSubscription \<Rightarrow> int" where
  "compareSubscriptions e a b =
     localeCompare e (toLocaleLowerCase e (subscription_name a))
                     (toLocaleLowerCase e (subscription_name b))"

definition subscriptionCategoryValue :: "AzureResourceSubscription \<Rightarrow> CategoryValue" where
  "subscriptionCategoryValue subscription =
     \<lparr>displayName = subscription_name subscription @ '' - '' @ subscription_id subscription,
      name = subscription_id subscription\<rparr>"

text \<open>
  The part of the subscription loader and of the subscription dropdown's handler that
  they share: store the selection, fetch the token for the subscription's tenant.
\<close>

definition selectSubscription :: "env \<Rightarrow> CategoryValue \<Rightarrow> state \<Rightarrow> unit outcome" where
  "selectSubscription e v s =
     (let s1 = s\<lparr>model := (model s)\<lparr>azureSubscription := Some (name v),
                                      azureSubscriptionDisplayName := Some (displayName v)\<rparr>\<rparr>;
          tenantId = Option.bind (subscriptionsMap s1 (name v)) tenant;
          s2 = issue (GetAccountSecurityToken (azureAccount (model s1)) tenantId) s1
      in
      case getAccountSecurityToken e (azureAccount (model s1)) tenantId of
        Inl err \<Rightarrow> Throws err s2
      | Inr token \<Rightarrow> Returns () (s2\<lparr>model := (model s2)\<lparr>securityToken := token\<rparr>\<rparr>))"

text \<open>
  \<^verbatim>\<open>populateAzureSubscriptionsDropdown\<close> is suspended at its call of \<^verbatim>\<open>getSubscriptions\<close>.
  This is how it resumes with the answer (\<open>None\<close> for an answer without a list).
\<close>

definition populateAzureSubscriptionsDropdown_resume ::
    "env \<Rightarrow> AzureResourceSubscription list option \<Rightarrow> state \<Rightarrow> unit outcome" where
  "populateAzureSubscriptionsDropdown_resume e subscriptions s1 =
     (if subscriptions = None \<or> map_option length subscriptions = Some 0
      then populateServerGroupDropdown e
             (s1\<lparr>azureSubscriptionsDropdown :=
                   updateProperties_values (azureSubscriptionsDropdown s1) [],
                 azureSubscriptionLoader_loading := False\<rparr>)
      else
        (let sorted = array_sort (compareSubscriptions e)
                        (case subscriptions of None \<Rightarrow> [] | Some l \<Rightarrow> l);
             s2 = s1\<lparr>subscriptionsMap :=
                       foldl (\<lambda>m subscription. m(subscription_id subscription \<mapsto> subscription))
                         (subscriptionsMap s1) sorted,
                     azureSubscriptionsDropdown :=
                       addDropdownValues (azureSubscriptionsDropdown s1)
                         (map subscriptionCategoryValue sorted)\<rparr>
         in
         case dropdown_value (azureSubscriptionsDropdown s2) of
           None \<Rightarrow> Throws TypeError s2
         | Some v \<Rightarrow>
             (case selectSubscription e v s2 of
                Throws err s3 \<Rightarrow> Throws err s3
              | Returns _ s3 \<Rightarrow>
                  populateServerGroupDropdown e
                    (s3\<lparr>azureSubscriptionLoader_loading := False\<rparr>))))"

definition populateAzureSubscriptionsDropdown :: "env \<Rightarrow> state \<Rightarrow> unit outcome" where
  "populateAzureSubscriptionsDropdown e s0 =
     (let s = issue GetAzurecoreApi (s0\<lparr>azureSubscriptionLoader_loading := True\<rparr>) in
      case getAzurecoreApi e of
        Inl err \<Rightarrow> Throws err s
      | Inr subService \<Rightarrow>
          (case dropdown_value (azureAccountsDropdown s) of
             None \<Rightarrow>
               populateServerGroupDropdown e (s\<lparr>azureSubscriptionLoader_loading := False\<rparr>)
           | Some currentAccountDropdownValue \<Rightarrow>
               (let currentAccount = accountsMap s (name currentAccountDropdownValue);
                    s1 = issue (GetSubscriptions currentAccount) s
                in
                case getSubscriptions e currentAccount of
                  Inl err \<Rightarrow> Throws err s1
                | Inr subscriptions \<Rightarrow>
                    populateAzureSubscriptionsDropdown_resume e subscriptions s1)))"


subsection \<open>Accounts\<close>

definition accountCategoryValue :: "Account \<Rightarrow> CategoryValue" where
  "accountCategoryValue account =
     \<lparr>displayName = account_displayName account, name = account_displayName account\<rparr>"

definition populateAzureAccountsDropdown :: "env \<Rightarrow> state \<Rightarrow> unit outcome" where
  "populateAzureAccountsDropdown e s0 =
     (let s = issue GetAllAccounts (s0\<lparr>azureAccountsLoader_loading := True\<rparr>) in
      case getAllAccounts e of
        Inl err \<Rightarrow> Throws err s
      | Inr accounts \<Rightarrow>
          (case accounts of
             [] \<Rightarrow> Returns () (showErrorMessage ''Sign in to an Azure account first'' s)
           | first # _ \<Rightarrow>
               (let s1 = showErrorMessage [] s;
                    s2 = s1\<lparr>accountsMap :=
                              foldl (\<lambda>m account. m(account_displayName account \<mapsto> account))
                                (accountsMap s1) accounts,
                            azureAccountsDropdown :=
                              addDropdownValues (azureAccountsDropdown s1)
                                (map accountCategoryValue accounts)\<rparr>;
                    s3 = s2\<lparr>model := (model s2)\<lparr>azureAccount := Some first\<rparr>,
                            azureAccountsLoader_loading := False\<rparr>
                in populateAzureSubscriptionsDropdown e s3)))"

text \<open>
  The handler of the account dropdown's \<^verbatim>\<open>onValueChanged\<close>, given \<^verbatim>\<open>value.selected\<close>. The
  subscription reload it starts is not awaited.
\<close>

definition azureAccountsDropdown_onValueChanged :: "env \<Rightarrow> string \<Rightarrow> state \<Rightarrow> unit outcome" where
  "azureAccountsDropdown_onValueChanged e selected s =
     (let s1 = s\<lparr>model := (model s)\<lparr>azureAccount := accountsMap s selected\<rparr>\<rparr>
      in Returns () (state_of (populateAzureSubscriptionsDropdown e s1)))"

text \<open>The page as its constructor and \<^verbatim>\<open>initialize\<close> leave it, before the first load.\<close>

definition emptyDropdown :: DropDownComponent where
  "emptyDropdown = \<lparr>dropdown_value = None, dropdown_values = []\<rparr>"

definition constructedPage :: state where
  "constructedPage =
     \<lparr>model = \<lparr>azureAccount = None, azureSubscription = None,
                azureSubscriptionDisplayName = None, securityToken = None,
                azureServerName = None, azureResouceGroup = None\<rparr>,
      wizardMessage = [],
      liveValidation = False,
      azureAccountsDropdown = emptyDropdown,
      azureAccountsLoader_loading = False,
      azureSubscriptionsDropdown = emptyDropdown,
      azureSubscriptionLoader_loading = False,
      serverGroupDropdown = emptyDropdown,
      serverGroupLoader_loading = False,
      accountsMap = Map.empty,
      subscriptionsMap = Map.empty,
      issued = []\<rparr>"

subsection \<open>The user's selections and the states the page can reach\<close>





section \<open>Notebook content\<close>

text \<open>
  A value as \<^verbatim>\<open>JSON.parse\<close> returns it. The parser is JavaScript's; it is a parameter:
  \<open>Some\<close> the parsed document, \<open>None\<close> when it throws its SyntaxError. An object holds
  each key once.
\<close>

datatype json =
  JNull
  | JBool bool
  | JNumber rat
  | JString string
  | JArray "json list"
  | JObject "(string \<times> json) list"

datatype jstype = TUndefined | TObject | TBoolean | TNumber | TString

text \<open>\<^verbatim>\<open>typeof\<close>; \<open>None\<close> is \<^verbatim>\<open>undefined\<close>. JavaScript gives \<^verbatim>\<open>null\<close> and arrays the type \<^verbatim>\<open>'object'\<close>.\<close>

fun typeof :: "json option \<Rightarrow> jstype" where
  "typeof None = TUndefined"
| "typeof (Some JNull) = TObject"
| "typeof (Some (JBool b)) = TBoolean"
| "typeof (Some (JNumber n)) = TNumber"
| "typeof (Some (JString s)) = TString"
| "typeof (Some (JArray xs)) = TObject"
| "typeof (Some (JObject kvs)) = TObject"

text \<open>
  \<^verbatim>\<open>doc.key\<close> for one of the four keys the function reads: a TypeError on \<^verbatim>\<open>null\<close>, the
  member of an object, \<^verbatim>\<open>undefined\<close> on every other value.
\<close>

fun getProperty :: "json \<Rightarrow> string \<Rightarrow> error + json option" where
  "getProperty JNull key = Inl TypeError"
| "getProperty (JObject kvs) key = Inr (map_of kvs key)"
| "getProperty doc key = Inr None"

text \<open>The body of the \<^verbatim>\<open>try\<close> block: \<open>Inl\<close> what it throws, \<open>Inr True\<close> when it returns true.\<close>

definition isNotebookContent_try :: "(string \<Rightarrow> json option) \<Rightarrow> string \<Rightarrow> error + bool" where
  "isNotebookContent_try parse documentContent =
     (case parse documentContent of
        None \<Rightarrow> Inl SyntaxError
      | Some doc \<Rightarrow>
          (case getProperty doc ''metadata'' of
             Inl err \<Rightarrow> Inl err
           | Inr metadata \<Rightarrow>
               if typeof metadata \<noteq> TObject then Inr False
               else
                 (case getProperty doc ''nbformat'' of
                    Inl err \<Rightarrow> Inl err
                  | Inr nbformat \<Rightarrow>
                      if typeof nbformat \<noteq> TNumber then Inr False
                      else
                        (case getProperty doc ''nbformat_minor'' of
                           Inl err \<Rightarrow> Inl err
                         | Inr nbformat_minor \<Rightarrow>
                             if typeof nbformat_minor \<noteq> TNumber then Inr False
                             else
                               (case getProperty doc ''cells'' of
                                  Inl err \<Rightarrow> Inl err
                                | Inr cells \<Rightarrow> Inr (typeof cells = TObject))))))"

text \<open>
  \<^verbatim>\<open>isNotebookContent\<close>: the \<^verbatim>\<open>catch\<close> swallows whatever the block throws, and the function
  then returns false, as it does when the condition fails.
\<close>

definition isNotebookContent :: "(string \<Rightarrow> json option) \<Rightarrow> string \<Rightarrow> error + bool" where
  "isNotebookContent parse documentContent =
     (case isNotebookContent_try parse documentContent of
        Inl _ \<Rightarrow> Inr False
      | Inr True \<Rightarrow> Inr True
      | Inr False \<Rightarrow> Inr False)"

section \<open>A concrete environment\<close>

text \<open>
  Two accounts; the first has one subscription with one server, the second has no
  subscription. A locale that lower-cases ASCII letters and compares code units.
\<close>

definition lowerAscii :: "char \<Rightarrow> char" where
  "lowerAscii c =
     (case map_of (zip ''ABCDEFGHIJKLMNOPQRSTUVWXYZ'' ''abcdefghijklmnopqrstuvwxyz'') c of
        None \<Rightarrow> c
      | Some l \<Rightarrow> l)"

fun ordinalCompare :: "string \<Rightarrow> string \<Rightarrow> int" where
  "ordinalCompare [] [] = 0"
| "ordinalCompare [] (y # ys) = - 1"
| "ordinalCompare (x # xs) [] = 1"
| "ordinalCompare (x # xs) (y # ys) =
     (if (of_char x :: nat) < of_char y then - 1
      else if (of_char y :: nat) < of_char x then 1
      else ordinalCompare xs ys)"

definition accountA :: Account where
  "accountA = \<lparr>account_key = ''key-a'', account_displayName = ''alice@contoso.com''\<rparr>"

definition accountB :: Account where
  "accountB = \<lparr>account_key = ''key-b'', account_displayName = ''bob@contoso.com''\<rparr>"

definition subscriptionX :: AzureResourceSubscription where
  "subscriptionX = \<lparr>subscription_id = ''X'', subscription_name = ''Dev'', tenant = Some ''tenant-1''\<rparr>"

definition serverSrv1 :: ServerResource where
  "serverSrv1 =
     \<lparr>server_name = ''srv1'',
      server_id = ''/subscriptions/X/resourceGroups/RG1/providers/Microsoft.Sql/servers/srv1''\<rparr>"

definition exampleEnv :: env where
  "exampleEnv =
     \<lparr>getAllAccounts = Inr [accountA, accountB],
      getAzurecoreApi = Inr (),
      getSubscriptions = (\<lambda>a. if a = Some accountA then Inr (Some [subscriptionX]) else Inr (Some [])),
      getAccountSecurityToken = (\<lambda>a t. Inr (Some ''secret'')),
      transport = (\<lambda>url hs. Inr \<lparr>status = 200, data = Some [serverSrv1]\<rparr>),
      toLocaleLowerCase = map lowerAscii,
      localeCompare = ordinalCompare\<rparr>"

text \<open>The page after its first load in this environment: account, subscription and server are set.\<close>

definition settledPage :: state where
  "settledPage = state_of (populateAzureAccountsDropdown exampleEnv constructedPage)"

text \<open>The account dropdown after the user has picked the second account.\<close>

definition bobChosenPage :: state where
  "bobChosenPage =
     settledPage\<lparr>azureAccountsDropdown :=
       (azureAccountsDropdown settledPage)\<lparr>dropdown_value := Some (accountCategoryValue accountB)\<rparr>\<rparr>"

text \<open>Variants of the environment: no account, no server, a refused request.\<close>

definition noAccountsEnv :: env where
  "noAccountsEnv = exampleEnv\<lparr>getAllAccounts := Inr []\<rparr>"

definition noServersEnv :: env where
  "noServersEnv = exampleEnv\<lparr>transport := (\<lambda>url hs. Inr \<lparr>status = 200, data = Some []\<rparr>)\<rparr>"

definition notFoundEnv :: env where
  "notFoundEnv = exampleEnv\<lparr>transport := (\<lambda>url hs. Inr \<lparr>status = 404, data = None\<rparr>)\<rparr>"

text \<open>Pages whose server dropdown alone is filled: with the sentinel, and with a server.\<close>

definition sentinelPage :: state where
  "sentinelPage =
     constructedPage\<lparr>serverGroupDropdown := updateProperties_values emptyDropdown [noServersFound]\<rparr>"

definition serverOnlyPage :: state where
  "serverOnlyPage =
     constructedPage\<lparr>serverGroupDropdown :=
       updateProperties_values emptyDropdown [serverCategoryValue serverSrv1]\<rparr>"

text \<open>
  The schema \<^verbatim>\<open>isNotebookContent\<close> is said to test, stated on the parsed document: an
  object whose four members have the \<^verbatim>\<open>typeof\<close> named.
\<close>

definition notebookSchema :: "json \<Rightarrow> bool" where
  "notebookSchema doc =
     (case doc of
        JObject kvs \<Rightarrow>
          typeof (map_of kvs ''metadata'') = TObject \<and>
          typeof (map_of kvs ''nbformat'') = TNumber \<and>
          typeof (map_of kvs ''nbformat_minor'') = TNumber \<and>
          typeof (map_of kvs ''cells'') = TObject
      | _ \<Rightarrow> False)"

definition notebookDocument :: json where
  "notebookDocument =
     JObject [(''metadata'', JObject []), (''nbformat'', JNumber 4),
              (''nbformat_minor'', JNumber 2), (''cells'', JArray [])]"

text \<open>More servers and subscriptions, for the order in which candidates are shown.\<close>

definition serverZeta :: ServerResource where
  "serverZeta =
     \<lparr>server_name = ''zeta'',
      server_id = ''/subscriptions/X/resourceGroups/RG1/providers/Microsoft.Sql/servers/zeta''\<rparr>"

definition serverAlpha :: ServerResource where
  "serverAlpha =
     \<lparr>server_name = ''Alpha'',
      server_id = ''/subscriptions/X/resourceGroups/RG2/providers/Microsoft.Sql/servers/Alpha''\<rparr>"

definition subscriptionY :: AzureResourceSubscription where
  "subscriptionY = \<lparr>subscription_id = ''Y'', subscription_name = ''dev-2'', tenant = Some ''tenant-1''\<rparr>"

definition twoServersEnv :: env where
  "twoServersEnv =
     exampleEnv\<lparr>transport := (\<lambda>url hs. Inr \<lparr>status = 200, data = Some [serverZeta, serverAlpha]\<rparr>)\<rparr>"

definition twoSubscriptionsEnv :: env where
  "twoSubscriptionsEnv =
     exampleEnv\<lparr>getSubscriptions := (\<lambda>a. Inr (Some [subscriptionY, subscriptionX]))\<rparr>"



section \<open>Predicates of the properties\<close>



text \<open>What the steps before a server reload leave alone.\<close>

definition serverSideKept :: "state \<Rightarrow> state \<Rightarrow> bool" where
  "serverSideKept s s' =
     (azureResouceGroup (model s') = azureResouceGroup (model s) \<and>
      azureServerName (model s') = azureServerName (model s) \<and>
      serverGroupDropdown s' = serverGroupDropdown s \<and>
      azureAccountsDropdown s' = azureAccountsDropdown s)"



section \<open>Properties\<close>

subsection \<open>The concrete environment, evaluated\<close>

lemmas run_defs =
  populateAzureAccountsDropdown_def populateAzureSubscriptionsDropdown_def
  populateAzureSubscriptionsDropdown_resume_def
  populateServerGroupDropdown_def selectSubscription_def getRequest_def axios_get_def
  requestConfig_def issue_def showErrorMessage_def addDropdownValues_def
  updateProperties_values_def accountCategoryValue_def subscriptionCategoryValue_def
  serverCategoryValue_def setServerSelection_def array_sort_def serversUrl_def
  interpolate_def page.truncate_def Let_def

lemmas example_defs =
  exampleEnv_def constructedPage_def emptyDropdown_def accountA_def accountB_def
  subscriptionX_def serverSrv1_def

lemma resourceGroupOf_example:
  "resourceGroupOf ''/subscriptions/X/resourceGroups/RG1/providers/Microsoft.Sql/servers/srv1'' = ''RG1''"
  by (simp add: resourceGroupOf_def replace_upto_resourceGroups_def lineTerminator_def)

lemma settledPage_model:
  "model settledPage =
     \<lparr>azureAccount = Some accountA, azureSubscription = Some ''X'',
      azureSubscriptionDisplayName = Some ''Dev - X'', securityToken = Some ''secret'',
      azureServerName = Some ''srv1'', azureResouceGroup = Some ''RG1''\<rparr>"
  by (simp add: settledPage_def run_defs example_defs resourceGroupOf_example)

lemma settledPage_dropdowns:
  "azureAccountsDropdown settledPage =
     \<lparr>dropdown_value = Some (accountCategoryValue accountA),
      dropdown_values = [accountCategoryValue accountA, accountCategoryValue accountB]\<rparr>"
  "azureSubscriptionsDropdown settledPage =
     \<lparr>dropdown_value = Some (subscriptionCategoryValue subscriptionX),
      dropdown_values = [subscriptionCategoryValue subscriptionX]\<rparr>"
  "serverGroupDropdown settledPage =
     \<lparr>dropdown_value = Some (serverCategoryValue serverSrv1),
      dropdown_values = [serverCategoryValue serverSrv1]\<rparr>"
  by (simp_all add: settledPage_def run_defs example_defs)

lemma settledPage_maps:
  "accountsMap settledPage =
     [account_displayName accountA \<mapsto> accountA, account_displayName accountB \<mapsto> accountB]"
  "subscriptionsMap settledPage = [''X'' \<mapsto> subscriptionX]"
  by (simp_all add: settledPage_def run_defs example_defs)

subsection \<open>The example locale\<close>

lemma lower_examples:
  "map lowerAscii ''zeta'' = ''zeta''"
  "map lowerAscii ''Alpha'' = ''alpha''"
  "map lowerAscii ''Dev'' = ''dev''"
  "map lowerAscii ''dev-2'' = ''dev-2''"
  by (simp_all add: lowerAscii_def)

lemma ordinal_examples:
  "ordinalCompare ''zeta'' ''alpha'' = 1"
  "ordinalCompare ''dev'' ''dev-2'' = - 1"
  "ordinalCompare ''dev-2'' ''dev'' = 1"
  by simp_all

subsection \<open>Sorting with a comparison function\<close>

lemma set_insert_sorted: "set (insert_sorted cmp x xs) = insert x (set xs)"
  by (induction xs) auto

lemma mset_insert_sorted: "mset (insert_sorted cmp x xs) = add_mset x (mset xs)"
  by (induction xs) auto

lemma mset_array_sort: "mset (array_sort cmp xs) = mset xs"
  by (induction xs) (simp_all add: array_sort_def mset_insert_sorted)

lemma sorted_insert_sorted:
  assumes total: "\<And>a b. cmp a b \<le> 0 \<or> cmp b a \<le> 0"
    and trans: "\<And>a b c. cmp a b \<le> 0 \<Longrightarrow> cmp b c \<le> 0 \<Longrightarrow> cmp a c \<le> 0"
    and "sorted_wrt (\<lambda>a b. cmp a b \<le> 0) xs"
  shows "sorted_wrt (\<lambda>a b. cmp a b \<le> 0) (insert_sorted cmp x xs)"
  using assms(3)
proof (induction xs)
  case Nil
  then show ?case by simp
next
  case (Cons y ys)
  show ?case
  proof (cases "cmp x y \<le> 0")
    case True
    with Cons.prems show ?thesis
      by (auto intro: trans)
  next
    case False
    with total [of x y] have "cmp y x \<le> 0" by simp
    with False Cons show ?thesis
      by (auto simp: set_insert_sorted)
  qed
qed

lemma sorted_array_sort:
  assumes total: "\<And>a b. cmp a b \<le> 0 \<or> cmp b a \<le> 0"
    and trans: "\<And>a b c. cmp a b \<le> 0 \<Longrightarrow> cmp b c \<le> 0 \<Longrightarrow> cmp a c \<le> 0"
  shows "sorted_wrt (\<lambda>a b. cmp a b \<le> 0) (array_sort cmp xs)"
proof (induction xs)
  case Nil
  then show ?case by (simp add: array_sort_def)
next
  case (Cons x xs)
  then show ?case
    using sorted_insert_sorted [of cmp "array_sort cmp xs" x, OF total trans]
    by (simp add: array_sort_def)
qed


lemma ordinalCompare_total: "ordinalCompare a b \<le> 0 \<or> ordinalCompare b a \<le> 0"
  by (induction a b rule: ordinalCompare.induct) auto

lemma ordinalCompare_Cons_le:
  "(ordinalCompare (x # xs) (y # ys) \<le> 0) =
     ((of_char x :: nat) < of_char y \<or> ((of_char x :: nat) = of_char y \<and> ordinalCompare xs ys \<le> 0))"
  by auto

lemma ordinalCompare_trans:
  "ordinalCompare a b \<le> 0 \<Longrightarrow> ordinalCompare b c \<le> 0 \<Longrightarrow> ordinalCompare a c \<le> 0"
proof (induction a b arbitrary: c rule: ordinalCompare.induct)
  case 1
  then show ?case by simp
next
  case (2 y ys)
  then show ?case by (cases c) simp_all
next
  case (3 x xs)
  then show ?case by simp
next
  case (4 x xs y ys)
  show ?case
  proof (cases c)
    case Nil
    with "4.prems" show ?thesis by simp
  next
    case (Cons z zs)
    from "4.prems"(1) have xy:
      "(of_char x :: nat) < of_char y \<or> ((of_char x :: nat) = of_char y \<and> ordinalCompare xs ys \<le> 0)"
      by (simp only: ordinalCompare_Cons_le)
    from "4.prems"(2) Cons have yz:
      "(of_char y :: nat) < of_char z \<or> ((of_char y :: nat) = of_char z \<and> ordinalCompare ys zs \<le> 0)"
      by (simp only: ordinalCompare_Cons_le)
    show ?thesis
    proof (cases "(of_char x :: nat) = of_char y \<and> (of_char y :: nat) = of_char z")
      case True
      with xy yz have "ordinalCompare xs ys \<le> 0" "ordinalCompare ys zs \<le> 0"
        by simp_all
      with True "4.IH" have "ordinalCompare xs zs \<le> 0"
        by simp
      with True Cons show ?thesis
        by (simp only: ordinalCompare_Cons_le) simp
    next
      case False
      with xy yz have "(of_char x :: nat) < of_char z"
        by linarith
      with Cons show ?thesis
        by (simp only: ordinalCompare_Cons_le) simp
    qed
  qed
qed

subsection \<open>What each step leaves alone\<close>

lemma getRequest_state:
  "state_of (getRequest e url s) = s \<or> state_of (getRequest e url s) = issue (HttpGet url) s"
  by (simp add: getRequest_def Let_def split: option.splits sum.splits)



lemma populateServer_issued:
  "\<exists>rest. issued (state_of (populateServerGroupDropdown e s)) = issued s @ rest"
  using getRequest_state [of e "serversUrl (model s)" "s\<lparr>serverGroupLoader_loading := True\<rparr>"]
  by (auto simp: populateServerGroupDropdown_def Let_def setServerSelection_def issue_def
      split: option.splits outcome.splits)

lemma populateServer_upstream:
  "azureSubscriptionsDropdown (state_of (populateServerGroupDropdown e s)) = azureSubscriptionsDropdown s"
  "azureAccountsDropdown (state_of (populateServerGroupDropdown e s)) = azureAccountsDropdown s"
  using getRequest_state [of e "serversUrl (model s)" "s\<lparr>serverGroupLoader_loading := True\<rparr>"]
  by (auto simp: populateServerGroupDropdown_def Let_def setServerSelection_def issue_def
      split: option.splits outcome.splits)

lemma selectSubscription_state:
  "state_of (selectSubscription e v s) =
     (let s1 = s\<lparr>model := (model s)\<lparr>azureSubscription := Some (name v),
                                      azureSubscriptionDisplayName := Some (displayName v)\<rparr>\<rparr>;
          tenantId = Option.bind (subscriptionsMap s1 (name v)) tenant;
          s2 = issue (GetAccountSecurityToken (azureAccount (model s1)) tenantId) s1
      in case getAccountSecurityToken e (azureAccount (model s1)) tenantId of
           Inl err \<Rightarrow> s2
         | Inr token \<Rightarrow> s2\<lparr>model := (model s2)\<lparr>securityToken := token\<rparr>\<rparr>)"
  by (simp add: selectSubscription_def Let_def split: sum.splits)

lemma selectSubscription_kept:
  "serverSideKept s (state_of (selectSubscription e v s))"
  "azureSubscriptionsDropdown (state_of (selectSubscription e v s)) = azureSubscriptionsDropdown s"
  "\<exists>rest. issued (state_of (selectSubscription e v s)) = issued s @ rest"
  by (simp_all add: selectSubscription_state serverSideKept_def Let_def issue_def split: sum.splits)

lemma resume_cases:
  "(\<exists>s3. populateAzureSubscriptionsDropdown_resume e subscriptions s
            = populateServerGroupDropdown e s3 \<and>
          serverSideKept s s3 \<and> (\<exists>rest. issued s3 = issued s @ rest)) \<or>
   (\<exists>err s3. populateAzureSubscriptionsDropdown_resume e subscriptions s = Throws err s3 \<and>
          serverSideKept s s3 \<and> (\<exists>rest. issued s3 = issued s @ rest))"
proof (cases "subscriptions = None \<or> map_option length subscriptions = Some 0")
  case True
  then show ?thesis
    by (auto simp: populateAzureSubscriptionsDropdown_resume_def serverSideKept_def)
next
  case False
  define sorted where "sorted = array_sort (compareSubscriptions e)
                        (case subscriptions of None \<Rightarrow> [] | Some l \<Rightarrow> l)"
  define s2 where "s2 = s\<lparr>subscriptionsMap :=
                       foldl (\<lambda>m subscription. m(subscription_id subscription \<mapsto> subscription))
                         (subscriptionsMap s) sorted,
                     azureSubscriptionsDropdown :=
                       addDropdownValues (azureSubscriptionsDropdown s)
                         (map subscriptionCategoryValue sorted)\<rparr>"
  have unfolded: "populateAzureSubscriptionsDropdown_resume e subscriptions s =
      (case dropdown_value (azureSubscriptionsDropdown s2) of
         None \<Rightarrow> Throws TypeError s2
       | Some v \<Rightarrow>
           (case selectSubscription e v s2 of
              Throws err s3 \<Rightarrow> Throws err s3
            | Returns _ s3 \<Rightarrow>
                populateServerGroupDropdown e (s3\<lparr>azureSubscriptionLoader_loading := False\<rparr>)))"
    unfolding populateAzureSubscriptionsDropdown_resume_def s2_def sorted_def Let_def
    by (simp only: False if_False)
  have k2: "serverSideKept s s2" "issued s2 = issued s"
    by (simp_all add: s2_def serverSideKept_def)
  show ?thesis
  proof (cases "dropdown_value (azureSubscriptionsDropdown s2)")
    case None
    with k2 unfolded show ?thesis
      by auto
  next
    case (Some v)
    let ?s3 = "state_of (selectSubscription e v s2)"
    have k3: "serverSideKept s ?s3"
      using k2 selectSubscription_kept(1) [of s2 e v] by (simp add: serverSideKept_def)
    obtain rest where r3: "issued ?s3 = issued s @ rest"
      using k2 selectSubscription_kept(3) [of e v s2] by auto
    show ?thesis
    proof (cases "selectSubscription e v s2")
      case (Returns u s3)
      then have "?s3 = s3" by simp
      with k3 r3 have "serverSideKept s (s3\<lparr>azureSubscriptionLoader_loading := False\<rparr>)"
        "issued (s3\<lparr>azureSubscriptionLoader_loading := False\<rparr>) = issued s @ rest"
        by (simp_all add: serverSideKept_def)
      moreover have "populateAzureSubscriptionsDropdown_resume e subscriptions s =
          populateServerGroupDropdown e (s3\<lparr>azureSubscriptionLoader_loading := False\<rparr>)"
        using unfolded Some Returns by simp
      ultimately show ?thesis
        by blast
    next
      case (Throws err s3)
      then have "?s3 = s3" by simp
      moreover have "populateAzureSubscriptionsDropdown_resume e subscriptions s = Throws err s3"
        using unfolded Some Throws by simp
      ultimately show ?thesis
        using k3 r3 by auto
    qed
  qed
qed

lemma serverSideKept_trans:
  "serverSideKept a b \<Longrightarrow> serverSideKept b c \<Longrightarrow> serverSideKept a c"
  by (simp add: serverSideKept_def)

lemma subscriptions_cases:
  "(\<exists>s3. populateAzureSubscriptionsDropdown e s = populateServerGroupDropdown e s3 \<and>
          serverSideKept s s3 \<and> (\<exists>rest. issued s3 = issued s @ rest)) \<or>
   (\<exists>err s3. populateAzureSubscriptionsDropdown e s = Throws err s3 \<and>
          serverSideKept s s3 \<and> (\<exists>rest. issued s3 = issued s @ rest))"
proof -
  define sA where "sA = issue GetAzurecoreApi (s\<lparr>azureSubscriptionLoader_loading := True\<rparr>)"
  have kA: "serverSideKept s sA" "\<exists>rest. issued sA = issued s @ rest"
    by (simp_all add: sA_def serverSideKept_def issue_def)
  show ?thesis
  proof (cases "getAzurecoreApi e")
    case (Inl err)
    then have "populateAzureSubscriptionsDropdown e s = Throws err sA"
      by (simp add: populateAzureSubscriptionsDropdown_def sA_def Let_def)
    with kA show ?thesis by blast
  next
    case (Inr u)
    show ?thesis
    proof (cases "dropdown_value (azureAccountsDropdown sA)")
      case None
      with Inr have "populateAzureSubscriptionsDropdown e s =
          populateServerGroupDropdown e (sA\<lparr>azureSubscriptionLoader_loading := False\<rparr>)"
        by (simp add: populateAzureSubscriptionsDropdown_def sA_def Let_def)
      moreover have "serverSideKept s (sA\<lparr>azureSubscriptionLoader_loading := False\<rparr>)"
        "\<exists>rest. issued (sA\<lparr>azureSubscriptionLoader_loading := False\<rparr>) = issued s @ rest"
        using kA by (simp_all add: serverSideKept_def)
      ultimately show ?thesis by blast
    next
      case (Some cur)
      define sB where "sB = issue (GetSubscriptions (accountsMap sA (name cur))) sA"
      have kB: "serverSideKept s sB"
        using kA by (simp add: sB_def serverSideKept_def issue_def)
      obtain restB where rB: "issued sB = issued s @ restB"
        using kA by (auto simp: sB_def issue_def)
      show ?thesis
      proof (cases "getSubscriptions e (accountsMap sA (name cur))")
        case (Inl err)
        with Inr Some have "populateAzureSubscriptionsDropdown e s = Throws err sB"
          by (simp add: populateAzureSubscriptionsDropdown_def sA_def [symmetric] sB_def Let_def)
        with kB rB show ?thesis by blast
      next
        case answer: (Inr subscriptions)
        with Inr Some have run: "populateAzureSubscriptionsDropdown e s =
            populateAzureSubscriptionsDropdown_resume e subscriptions sB"
          by (simp add: populateAzureSubscriptionsDropdown_def sA_def [symmetric] sB_def Let_def)
        from resume_cases [of e subscriptions sB] show ?thesis
        proof (elim disjE exE conjE)
          fix s3 rest
          assume "populateAzureSubscriptionsDropdown_resume e subscriptions sB
                    = populateServerGroupDropdown e s3"
            and "serverSideKept sB s3" and "issued s3 = issued sB @ rest"
          with run kB rB have "populateAzureSubscriptionsDropdown e s = populateServerGroupDropdown e s3"
            "serverSideKept s s3" "issued s3 = issued s @ (restB @ rest)"
            by (auto intro: serverSideKept_trans)
          then show ?thesis by blast
        next
          fix err s3 rest
          assume "populateAzureSubscriptionsDropdown_resume e subscriptions sB = Throws err s3"
            and "serverSideKept sB s3" and "issued s3 = issued sB @ rest"
          with run kB rB have "populateAzureSubscriptionsDropdown e s = Throws err s3"
            "serverSideKept s s3" "issued s3 = issued s @ (restB @ rest)"
            by (auto intro: serverSideKept_trans)
          then show ?thesis by blast
        qed
      qed
    qed
  qed
qed



lemma subscriptions_accounts_kept:
  "azureAccountsDropdown (state_of (populateAzureSubscriptionsDropdown e s)) = azureAccountsDropdown s"
  using subscriptions_cases [of e s]
  by (auto simp: serverSideKept_def populateServer_upstream)

lemma issued_of_cases:
  assumes "(\<exists>s3. r = populateServerGroupDropdown e s3 \<and> K s3 \<and> (\<exists>rest. issued s3 = issued s @ rest)) \<or>
           (\<exists>err s3. r = Throws err s3 \<and> K s3 \<and> (\<exists>rest. issued s3 = issued s @ rest))"
  shows "\<exists>rest. issued (state_of r) = issued s @ rest"
  using assms
proof (elim disjE exE conjE)
  fix s3 rest
  assume r: "r = populateServerGroupDropdown e s3" and i: "issued s3 = issued s @ rest"
  obtain more where "issued (state_of (populateServerGroupDropdown e s3)) = issued s3 @ more"
    using populateServer_issued [of e s3] by blast
  with r i have "issued (state_of r) = issued s @ (rest @ more)" by simp
  then show ?thesis by blast
next
  fix err s3 rest
  assume "r = Throws err s3" and "issued s3 = issued s @ rest"
  then show ?thesis by simp
qed

lemma resume_issued:
  "\<exists>rest. issued (state_of (populateAzureSubscriptionsDropdown_resume e subscriptions s)) = issued s @ rest"
  by (rule issued_of_cases [OF resume_cases])







lemma populateServer_first:
  assumes "dropdown_value (azureSubscriptionsDropdown s) = Some cur"
    and "displayName cur \<noteq> []"
    and "securityToken (model s) = Some token"
    and "transport e (serversUrl (model s)) (headers (requestConfig token)) = Inr response"
    and "data response = Some (first # others)"
  shows "populateServerGroupDropdown e s =
           Returns ()
             (setServerSelection (serverCategoryValue first)
                ((issue (HttpGet (serversUrl (model s))) (s\<lparr>serverGroupLoader_loading := True\<rparr>))
                 \<lparr>serverGroupDropdown :=
                    addDropdownValues (serverGroupDropdown s)
                      (map serverCategoryValue (first # others))\<rparr>)
              \<lparr>serverGroupLoader_loading := False\<rparr>)"
  using assms
  by (simp add: populateServerGroupDropdown_def getRequest_def axios_get_def requestConfig_def
      Let_def addDropdownValues_def updateProperties_values_def issue_def)













lemma resume_shown:
  assumes "subs \<noteq> []"
  shows "azureSubscriptionsDropdown (state_of (populateAzureSubscriptionsDropdown_resume e (Some subs) s))
           = addDropdownValues (azureSubscriptionsDropdown s)
               (map subscriptionCategoryValue (array_sort (compareSubscriptions e) subs))"
proof -
  define s2 where "s2 = s\<lparr>subscriptionsMap :=
                       foldl (\<lambda>m subscription. m(subscription_id subscription \<mapsto> subscription))
                         (subscriptionsMap s) (array_sort (compareSubscriptions e) subs),
                     azureSubscriptionsDropdown :=
                       addDropdownValues (azureSubscriptionsDropdown s)
                         (map subscriptionCategoryValue (array_sort (compareSubscriptions e) subs))\<rparr>"
  have unfolded: "populateAzureSubscriptionsDropdown_resume e (Some subs) s =
      (case dropdown_value (azureSubscriptionsDropdown s2) of
         None \<Rightarrow> Throws TypeError s2
       | Some v \<Rightarrow>
           (case selectSubscription e v s2 of
              Throws err s3 \<Rightarrow> Throws err s3
            | Returns _ s3 \<Rightarrow>
                populateServerGroupDropdown e (s3\<lparr>azureSubscriptionLoader_loading := False\<rparr>)))"
    unfolding populateAzureSubscriptionsDropdown_resume_def s2_def Let_def
    using assms by (simp cong: option.case_cong)
  have shown2: "azureSubscriptionsDropdown s2
           = addDropdownValues (azureSubscriptionsDropdown s)
               (map subscriptionCategoryValue (array_sort (compareSubscriptions e) subs))"
    by (simp add: s2_def)
  show ?thesis
  proof (cases "dropdown_value (azureSubscriptionsDropdown s2)")
    case None
    with unfolded shown2 show ?thesis by simp
  next
    case (Some v)
    have kept: "azureSubscriptionsDropdown (state_of (selectSubscription e v s2)) = azureSubscriptionsDropdown s2"
      by (rule selectSubscription_kept(2))
    show ?thesis
    proof (cases "selectSubscription e v s2")
      case (Returns u s3)
      with kept have "azureSubscriptionsDropdown s3 = azureSubscriptionsDropdown s2" by simp
      with unfolded Some Returns shown2 show ?thesis
        by (simp add: populateServer_upstream)
    next
      case (Throws err s3)
      with kept have "azureSubscriptionsDropdown s3 = azureSubscriptionsDropdown s2" by simp
      with unfolded Some Throws shown2 show ?thesis
        by simp
    qed
  qed
qed

lemma subscriptions_shown:
  assumes "getAzurecoreApi e = Inr u"
    and "dropdown_value (azureAccountsDropdown s) = Some cur"
    and "getSubscriptions e (accountsMap s (name cur)) = Inr (Some subs)"
    and "subs \<noteq> []"
  shows "dropdown_values (azureSubscriptionsDropdown (state_of (populateAzureSubscriptionsDropdown e s)))
           = map subscriptionCategoryValue (array_sort (compareSubscriptions e) subs)"
proof -
  define sB where "sB = issue (GetSubscriptions (accountsMap s (name cur)))
                          (issue GetAzurecoreApi (s\<lparr>azureSubscriptionLoader_loading := True\<rparr>))"
  have "populateAzureSubscriptionsDropdown e s = populateAzureSubscriptionsDropdown_resume e (Some subs) sB"
    using assms by (simp add: populateAzureSubscriptionsDropdown_def Let_def sB_def issue_def)
  then show ?thesis
    using resume_shown [OF assms(4), of e sB]
    by (simp add: addDropdownValues_def updateProperties_values_def sB_def)
qed

lemma accounts_shown:
  assumes "getAllAccounts e = Inr accounts" and "accounts \<noteq> []"
  shows "dropdown_values (azureAccountsDropdown (state_of (populateAzureAccountsDropdown e s)))
           = map accountCategoryValue accounts"
proof -
  from assms(2) obtain first others where "accounts = first # others"
    by (cases accounts) auto
  with assms(1) show ?thesis
    by (simp add: populateAzureAccountsDropdown_def Let_def subscriptions_accounts_kept
        addDropdownValues_def updateProperties_values_def)
qed

lemma servers_shown:
  assumes "dropdown_value (azureSubscriptionsDropdown s) = Some cur"
    and "displayName cur \<noteq> []"
    and "securityToken (model s) = Some token"
    and "transport e (serversUrl (model s)) (headers (requestConfig token)) = Inr response"
    and "data response = Some servers"
    and "servers \<noteq> []"
  shows "dropdown_values (serverGroupDropdown (state_of (populateServerGroupDropdown e s)))
           = map serverCategoryValue servers"
proof -
  from assms(6) obtain first others where "servers = first # others"
    by (cases servers) auto
  with assms show ?thesis
    by (simp add: populateServer_first setServerSelection_def addDropdownValues_def
        updateProperties_values_def)
qed


subsection \<open>The markers of the resource path\<close>





subsection \<open>Reachable states\<close>






















subsection \<open>C1: the validator\<close>



subsection \<open>C2: an empty server list\<close>

text \<open>
  C2: when the server list is fetched (a subscription with a display name is selected)
  and the response holds an empty \<^verbatim>\<open>value\<close> array, the server dropdown afterwards holds
  exactly the entry with display name 'No servers found' and the empty identity, and
  \<^verbatim>\<open>formValidation\<close> in that state returns a non-empty message.
\<close>

theorem empty_server_list_shows_sentinel:
  assumes "dropdown_value (azureSubscriptionsDropdown s) = Some cur"
    and "displayName cur \<noteq> []"
    and "securityToken (model s) = Some token"
    and "transport e (serversUrl (model s)) (headers (requestConfig token)) = Inr response"
    and "data response = Some []"
  shows "\<exists>s'. populateServerGroupDropdown e s = Returns () s' \<and>
           dropdown_values (serverGroupDropdown s') = [\<lparr>displayName = ''No servers found'', name = []\<rparr>] \<and>
           (\<exists>message s''. formValidation s' = Returns message s'' \<and> message \<noteq> [])"
  using assms
  by (simp add: populateServerGroupDropdown_def getRequest_def axios_get_def requestConfig_def
      Let_def updateProperties_values_def noServersFound_def formValidation_def
      noServersMessage_def issue_def)

theorem empty_server_list_shows_sentinel_witness:
  "dropdown_values (serverGroupDropdown (state_of (populateServerGroupDropdown noServersEnv settledPage)))
     = [noServersFound] \<and>
   returned (formValidation (state_of (populateServerGroupDropdown noServersEnv settledPage)))
     \<noteq> Some []"
proof -
  have a: "dropdown_value (azureSubscriptionsDropdown settledPage) = Some (subscriptionCategoryValue subscriptionX)"
    by (simp add: settledPage_dropdowns)
  have b: "displayName (subscriptionCategoryValue subscriptionX) \<noteq> []"
    by (simp add: subscriptionCategoryValue_def)
  have c: "securityToken (model settledPage) = Some ''secret''"
    by (simp add: settledPage_model)
  have d: "transport noServersEnv (serversUrl (model settledPage)) (headers (requestConfig ''secret''))
             = Inr \<lparr>status = 200, data = Some []\<rparr>"
    by (simp add: noServersEnv_def)
  have e: "data \<lparr>status = 200, data = Some []\<rparr> = Some []"
    by simp
  from empty_server_list_shows_sentinel [OF a b c d e]
  show ?thesis
    by (auto simp: noServersFound_def)
qed

subsection \<open>C3: changing the account\<close>

text \<open>
  C3, as stated, fails: nothing is cleared when the account changes. On the settled page,
  after the user picks the second account, the subscription request leaves while the model
  and both dropdowns still hold the old subscription and server; the second account has no
  subscription, and when the handler has finished the model still names the old
  subscription and the old server.
\<close>

theorem account_change_clears_nothing_before_fetch:
  "fst (last (issued (state_of (azureAccountsDropdown_onValueChanged exampleEnv
      (account_displayName accountB) bobChosenPage)))) = GetSubscriptions (Some accountB) \<and>
   azureSubscription (model (snd (last (issued (state_of (azureAccountsDropdown_onValueChanged exampleEnv
      (account_displayName accountB) bobChosenPage)))))) = Some ''X'' \<and>
   azureServerName (model (snd (last (issued (state_of (azureAccountsDropdown_onValueChanged exampleEnv
      (account_displayName accountB) bobChosenPage)))))) = Some ''srv1'' \<and>
   dropdown_value (azureSubscriptionsDropdown (snd (last (issued (state_of
      (azureAccountsDropdown_onValueChanged exampleEnv (account_displayName accountB) bobChosenPage))))))
     = Some (subscriptionCategoryValue subscriptionX) \<and>
   dropdown_value (serverGroupDropdown (snd (last (issued (state_of
      (azureAccountsDropdown_onValueChanged exampleEnv (account_displayName accountB) bobChosenPage))))))
     = Some (serverCategoryValue serverSrv1) \<and>
   azureSubscription (model (state_of (azureAccountsDropdown_onValueChanged exampleEnv
      (account_displayName accountB) bobChosenPage))) = Some ''X'' \<and>
   azureServerName (model (state_of (azureAccountsDropdown_onValueChanged exampleEnv
      (account_displayName accountB) bobChosenPage))) = Some ''srv1''"
  by (simp add: azureAccountsDropdown_onValueChanged_def populateAzureSubscriptionsDropdown_def
      populateAzureSubscriptionsDropdown_resume_def populateServerGroupDropdown_def Let_def
      issue_def page.truncate_def updateProperties_values_def bobChosenPage_def
      settledPage_model settledPage_dropdowns settledPage_maps exampleEnv_def
      accountCategoryValue_def accountA_def accountB_def)

text \<open>
  C3, amended: when the account selection changes (the subscription reload getting as far
  as its request), the handler stores the account looked up for the selection, marks the
  subscription field as loading and issues the subscription request while the stored
  subscription, its display name, the server name, the resource group and the
  subscription and server dropdowns are exactly what they were before the change: nothing
  is cleared first.
\<close>

theorem account_change_fetches_with_old_selections:
  assumes "getAzurecoreApi e = Inr u"
    and "dropdown_value (azureAccountsDropdown s) = Some cur"
  shows "\<exists>seen shown rest.
           issued (state_of (azureAccountsDropdown_onValueChanged e selected s))
             = issued s @ [(GetAzurecoreApi, seen),
                           (GetSubscriptions (accountsMap s (name cur)), shown)] @ rest \<and>
           azureAccount (model shown) = accountsMap s selected \<and>
           azureSubscriptionLoader_loading shown \<and>
           azureSubscription (model shown) = azureSubscription (model s) \<and>
           azureSubscriptionDisplayName (model shown) = azureSubscriptionDisplayName (model s) \<and>
           azureServerName (model shown) = azureServerName (model s) \<and>
           azureResouceGroup (model shown) = azureResouceGroup (model s) \<and>
           azureSubscriptionsDropdown shown = azureSubscriptionsDropdown s \<and>
           serverGroupDropdown shown = serverGroupDropdown s"
proof -
  define s1 where "s1 = s\<lparr>model := (model s)\<lparr>azureAccount := accountsMap s selected\<rparr>\<rparr>"
  define sA where "sA = issue GetAzurecoreApi (s1\<lparr>azureSubscriptionLoader_loading := True\<rparr>)"
  define sB where "sB = issue (GetSubscriptions (accountsMap s (name cur))) sA"
  define seen where "seen = page.truncate (s1\<lparr>azureSubscriptionLoader_loading := True\<rparr>)"
  define shown where "shown = page.truncate sA"
  have hist: "issued sB = issued s @ [(GetAzurecoreApi, seen),
                           (GetSubscriptions (accountsMap s (name cur)), shown)]"
    by (simp add: sB_def sA_def s1_def seen_def shown_def issue_def)
  have facts: "azureAccount (model shown) = accountsMap s selected"
    "azureSubscriptionLoader_loading shown"
    "azureSubscription (model shown) = azureSubscription (model s)"
    "azureSubscriptionDisplayName (model shown) = azureSubscriptionDisplayName (model s)"
    "azureServerName (model shown) = azureServerName (model s)"
    "azureResouceGroup (model shown) = azureResouceGroup (model s)"
    "azureSubscriptionsDropdown shown = azureSubscriptionsDropdown s"
    "serverGroupDropdown shown = serverGroupDropdown s"
    by (simp_all add: shown_def sA_def s1_def issue_def page.truncate_def)
  have "\<exists>rest. issued (state_of (populateAzureSubscriptionsDropdown e s1)) = issued sB @ rest"
  proof (cases "getSubscriptions e (accountsMap s (name cur))")
    case (Inl err)
    with assms have "populateAzureSubscriptionsDropdown e s1 = Throws err sB"
      by (simp add: populateAzureSubscriptionsDropdown_def Let_def sB_def sA_def s1_def issue_def)
    then show ?thesis by simp
  next
    case (Inr subscriptions)
    with assms have "populateAzureSubscriptionsDropdown e s1 =
        populateAzureSubscriptionsDropdown_resume e subscriptions sB"
      by (simp add: populateAzureSubscriptionsDropdown_def Let_def sB_def sA_def s1_def issue_def)
    then show ?thesis
      using resume_issued [of e subscriptions sB] by simp
  qed
  then obtain rest where "issued (state_of (populateAzureSubscriptionsDropdown e s1)) = issued sB @ rest"
    by blast
  with hist have "issued (state_of (azureAccountsDropdown_onValueChanged e selected s))
             = issued s @ [(GetAzurecoreApi, seen),
                           (GetSubscriptions (accountsMap s (name cur)), shown)] @ rest"
    by (simp add: azureAccountsDropdown_onValueChanged_def Let_def s1_def)
  with facts show ?thesis
    by blast
qed

theorem account_change_fetches_with_old_selections_witness:
  "map fst (drop (length (issued bobChosenPage))
      (issued (state_of (azureAccountsDropdown_onValueChanged exampleEnv
         (account_displayName accountB) bobChosenPage))))
     = [GetAzurecoreApi, GetSubscriptions (Some accountB)]"
proof -
  have a: "getAzurecoreApi exampleEnv = Inr ()"
    by (simp add: exampleEnv_def)
  have b: "dropdown_value (azureAccountsDropdown bobChosenPage) = Some (accountCategoryValue accountB)"
    by (simp add: bobChosenPage_def)
  have c: "accountsMap bobChosenPage (name (accountCategoryValue accountB)) = Some accountB"
    by (simp add: bobChosenPage_def settledPage_maps accountCategoryValue_def accountA_def accountB_def)
  have d: "map fst (issued (state_of (azureAccountsDropdown_onValueChanged exampleEnv
         (account_displayName accountB) bobChosenPage)))
      = map fst (issued bobChosenPage) @ [GetAzurecoreApi, GetSubscriptions (Some accountB)]"
    by (simp add: azureAccountsDropdown_onValueChanged_def populateAzureSubscriptionsDropdown_def
      populateAzureSubscriptionsDropdown_resume_def populateServerGroupDropdown_def Let_def
      issue_def page.truncate_def updateProperties_values_def bobChosenPage_def
      settledPage_model settledPage_dropdowns settledPage_maps exampleEnv_def
      accountCategoryValue_def accountA_def accountB_def)
  from account_change_fetches_with_old_selections [OF a b, of "account_displayName accountB"] c
  obtain seen shown rest where
    "issued (state_of (azureAccountsDropdown_onValueChanged exampleEnv
         (account_displayName accountB) bobChosenPage))
       = issued bobChosenPage @ [(GetAzurecoreApi, seen), (GetSubscriptions (Some accountB), shown)] @ rest"
    by auto
  with d have "rest = []"
    by simp
  with \<open>issued _ = _\<close> show ?thesis
    by simp
qed

subsection \<open>C4: the order of the candidates\<close>

text \<open>
  C4, as stated, fails for servers: they are shown in the order of the response. A response
  listing 'zeta' before 'Alpha' is shown in that order, although 'zeta' compares greater
  than 'Alpha' case-insensitively.
\<close>

theorem servers_shown_in_response_order:
  "map displayName (dropdown_values (serverGroupDropdown
      (state_of (populateServerGroupDropdown twoServersEnv settledPage)))) = [''zeta'', ''Alpha''] \<and>
   localeCompare twoServersEnv (toLocaleLowerCase twoServersEnv ''zeta'')
      (toLocaleLowerCase twoServersEnv ''Alpha'') = 1"
proof -
  have a: "dropdown_value (azureSubscriptionsDropdown settledPage) = Some (subscriptionCategoryValue subscriptionX)"
    by (simp add: settledPage_dropdowns)
  have b: "displayName (subscriptionCategoryValue subscriptionX) \<noteq> []"
    by (simp add: subscriptionCategoryValue_def)
  have c: "securityToken (model settledPage) = Some ''secret''"
    by (simp add: settledPage_model)
  have d: "transport twoServersEnv (serversUrl (model settledPage)) (headers (requestConfig ''secret''))
             = Inr \<lparr>status = 200, data = Some [serverZeta, serverAlpha]\<rparr>"
    by (simp add: twoServersEnv_def)
  have e: "data \<lparr>status = 200, data = Some [serverZeta, serverAlpha]\<rparr> = Some [serverZeta, serverAlpha]"
    by simp
  have loc: "localeCompare twoServersEnv = ordinalCompare"
    "toLocaleLowerCase twoServersEnv = map lowerAscii"
    by (simp_all add: twoServersEnv_def exampleEnv_def)
  have order: "localeCompare twoServersEnv (toLocaleLowerCase twoServersEnv ''zeta'')
      (toLocaleLowerCase twoServersEnv ''Alpha'') = 1"
    by (simp only: loc lower_examples ordinal_examples)
  from servers_shown [OF a b c d e] order show ?thesis
    by (simp add: serverCategoryValue_def serverZeta_def serverAlpha_def)
qed

text \<open>
  C4, amended: for a locale whose comparison is total and transitive, the subscriptions
  shown are the fetched ones (the same multiset) in ascending order of their lower-cased
  names, each shown as name, ' - ', id; servers are shown in the order of the response and
  accounts in the order the credential store returned them.
\<close>

theorem subscriptions_sorted_servers_and_accounts_as_returned:
  assumes total: "\<And>a b. localeCompare e a b \<le> 0 \<or> localeCompare e b a \<le> 0"
    and trans: "\<And>a b c. localeCompare e a b \<le> 0 \<Longrightarrow> localeCompare e b c \<le> 0
                  \<Longrightarrow> localeCompare e a c \<le> 0"
  shows "(getAzurecoreApi e = Inr u \<and> dropdown_value (azureAccountsDropdown s) = Some cur \<and>
          getSubscriptions e (accountsMap s (name cur)) = Inr (Some subs) \<and> subs \<noteq> [] \<longrightarrow>
            dropdown_values (azureSubscriptionsDropdown (state_of (populateAzureSubscriptionsDropdown e s)))
              = map subscriptionCategoryValue (array_sort (compareSubscriptions e) subs) \<and>
            mset (array_sort (compareSubscriptions e) subs) = mset subs \<and>
            sorted_wrt (\<lambda>a b. localeCompare e (toLocaleLowerCase e (subscription_name a))
                                              (toLocaleLowerCase e (subscription_name b)) \<le> 0)
              (array_sort (compareSubscriptions e) subs)) \<and>
         (dropdown_value (azureSubscriptionsDropdown s) = Some sub \<and> displayName sub \<noteq> [] \<and>
          securityToken (model s) = Some token \<and>
          transport e (serversUrl (model s)) (headers (requestConfig token)) = Inr response \<and>
          data response = Some servers \<and> servers \<noteq> [] \<longrightarrow>
            dropdown_values (serverGroupDropdown (state_of (populateServerGroupDropdown e s)))
              = map serverCategoryValue servers) \<and>
         (getAllAccounts e = Inr accounts \<and> accounts \<noteq> [] \<longrightarrow>
            dropdown_values (azureAccountsDropdown (state_of (populateAzureAccountsDropdown e s)))
              = map accountCategoryValue accounts)"
proof -
  have t: "\<And>a b. compareSubscriptions e a b \<le> 0 \<or> compareSubscriptions e b a \<le> 0"
    by (simp add: compareSubscriptions_def total)
  have tr: "\<And>a b c. compareSubscriptions e a b \<le> 0 \<Longrightarrow> compareSubscriptions e b c \<le> 0
                  \<Longrightarrow> compareSubscriptions e a c \<le> 0"
    unfolding compareSubscriptions_def by (rule trans)
  have "sorted_wrt (\<lambda>a b. compareSubscriptions e a b \<le> 0) (array_sort (compareSubscriptions e) subs)"
    by (rule sorted_array_sort [OF t tr])
  then have sorted: "sorted_wrt (\<lambda>a b. localeCompare e (toLocaleLowerCase e (subscription_name a))
                                              (toLocaleLowerCase e (subscription_name b)) \<le> 0)
              (array_sort (compareSubscriptions e) subs)"
    by (simp add: compareSubscriptions_def)
  show ?thesis
    using sorted mset_array_sort [of "compareSubscriptions e" subs]
      subscriptions_shown [of e u s cur subs]
      servers_shown [of s sub token e response servers]
      accounts_shown [of e accounts s]
    by blast
qed

theorem subscriptions_sorted_witness:
  "map displayName (dropdown_values (azureSubscriptionsDropdown
      (state_of (populateAzureSubscriptionsDropdown twoSubscriptionsEnv settledPage))))
     = [''Dev - X'', ''dev-2 - Y'']"
proof -
  have loc: "localeCompare twoSubscriptionsEnv = ordinalCompare"
    "toLocaleLowerCase twoSubscriptionsEnv = map lowerAscii"
    by (simp_all add: twoSubscriptionsEnv_def exampleEnv_def)
  have total: "\<And>a b. localeCompare twoSubscriptionsEnv a b \<le> 0 \<or> localeCompare twoSubscriptionsEnv b a \<le> 0"
    by (simp add: loc ordinalCompare_total)
  have trans: "\<And>a b c. localeCompare twoSubscriptionsEnv a b \<le> 0 \<Longrightarrow>
      localeCompare twoSubscriptionsEnv b c \<le> 0 \<Longrightarrow> localeCompare twoSubscriptionsEnv a c \<le> 0"
    unfolding loc by (rule ordinalCompare_trans)
  have a: "getAzurecoreApi twoSubscriptionsEnv = Inr ()"
    by (simp add: twoSubscriptionsEnv_def exampleEnv_def)
  have b: "dropdown_value (azureAccountsDropdown settledPage) = Some (accountCategoryValue accountA)"
    by (simp add: settledPage_dropdowns)
  have c: "getSubscriptions twoSubscriptionsEnv (accountsMap settledPage (name (accountCategoryValue accountA)))
             = Inr (Some [subscriptionY, subscriptionX])"
    by (simp add: twoSubscriptionsEnv_def)
  have d: "[subscriptionY, subscriptionX] \<noteq> []"
    by simp
  have names: "subscription_name subscriptionX = ''Dev''" "subscription_name subscriptionY = ''dev-2''"
    by (simp_all add: subscriptionX_def subscriptionY_def)
  have cmp: "compareSubscriptions twoSubscriptionsEnv subscriptionY subscriptionX = 1"
    by (simp only: compareSubscriptions_def loc names lower_examples ordinal_examples)
  have order: "array_sort (compareSubscriptions twoSubscriptionsEnv) [subscriptionY, subscriptionX]
                 = [subscriptionX, subscriptionY]"
    by (simp add: array_sort_def cmp)
  from subscriptions_sorted_servers_and_accounts_as_returned
         [where e = twoSubscriptionsEnv and u = "()" and s = settledPage
            and cur = "accountCategoryValue accountA" and subs = "[subscriptionY, subscriptionX]",
          OF total trans]
       a b c d order
  show ?thesis
    by (simp add: subscriptionCategoryValue_def subscriptionX_def subscriptionY_def)
qed

subsection \<open>C5: the resource group\<close>




subsection \<open>C6: no account\<close>

text \<open>
  C6, as stated, fails: on a page that already shows a subscription and a server, an
  empty account list leaves both as they are, not empty.
\<close>

theorem no_accounts_keeps_stale_fields:
  "getAllAccounts noAccountsEnv = Inr [] \<and>
   map name (dropdown_values (azureSubscriptionsDropdown
      (state_of (populateAzureAccountsDropdown noAccountsEnv settledPage)))) = [''X''] \<and>
   map displayName (dropdown_values (serverGroupDropdown
      (state_of (populateAzureAccountsDropdown noAccountsEnv settledPage)))) = [''srv1'']"
  by (simp add: noAccountsEnv_def exampleEnv_def populateAzureAccountsDropdown_def Let_def
      showErrorMessage_def issue_def settledPage_dropdowns subscriptionCategoryValue_def
      subscriptionX_def serverCategoryValue_def serverSrv1_def)

text \<open>
  C6, amended: when the credential store returns an empty account list, the account
  loader shows the warning 'Sign in to an Azure account first' and returns; the
  subscription and server dropdowns and the model are left exactly as they were (empty
  when they were empty, as on the first load), and the only request made is the one for
  the accounts: no subscription request.
\<close>

theorem no_accounts_warns_and_stops:
  assumes "getAllAccounts e = Inr []"
  shows "\<exists>s'. populateAzureAccountsDropdown e s = Returns () s' \<and>
           wizardMessage s' = ''Sign in to an Azure account first'' \<and>
           model s' = model s \<and>
           azureSubscriptionsDropdown s' = azureSubscriptionsDropdown s \<and>
           serverGroupDropdown s' = serverGroupDropdown s \<and>
           map fst (issued s') = map fst (issued s) @ [GetAllAccounts]"
  using assms
  by (simp add: populateAzureAccountsDropdown_def Let_def showErrorMessage_def issue_def)

theorem no_accounts_warns_and_stops_witness:
  "wizardMessage (state_of (populateAzureAccountsDropdown noAccountsEnv constructedPage))
     = ''Sign in to an Azure account first'' \<and>
   dropdown_values (azureSubscriptionsDropdown
      (state_of (populateAzureAccountsDropdown noAccountsEnv constructedPage))) = [] \<and>
   dropdown_values (serverGroupDropdown
      (state_of (populateAzureAccountsDropdown noAccountsEnv constructedPage))) = [] \<and>
   map fst (issued (state_of (populateAzureAccountsDropdown noAccountsEnv constructedPage)))
     = [GetAllAccounts]"
proof -
  have a: "getAllAccounts noAccountsEnv = Inr []"
    by (simp add: noAccountsEnv_def)
  from no_accounts_warns_and_stops [OF a, of constructedPage]
  show ?thesis
    by (auto simp: constructedPage_def emptyDropdown_def)
qed

subsection \<open>C7: no subscription\<close>

text \<open>
  C7: when \<^verbatim>\<open>getSubscriptions\<close> answers with no list or with an empty list, the subscription
  dropdown is left without candidates and without a value, the server reload is run on
  that state (its upstream selection is empty) and returns normally, leaving the server
  dropdown empty too; no request beyond the subscription fetch is made.
\<close>

theorem no_subscriptions_clears_and_reloads_servers:
  assumes "getAzurecoreApi e = Inr u"
    and "dropdown_value (azureAccountsDropdown s) = Some cur"
    and "getSubscriptions e (accountsMap s (name cur)) = Inr subscriptions"
    and "subscriptions = None \<or> subscriptions = Some []"
  shows "\<exists>s1 s'. populateAzureSubscriptionsDropdown e s = populateServerGroupDropdown e s1 \<and>
           dropdown_value (azureSubscriptionsDropdown s1) = None \<and>
           populateServerGroupDropdown e s1 = Returns () s' \<and>
           dropdown_values (azureSubscriptionsDropdown s') = [] \<and>
           dropdown_value (azureSubscriptionsDropdown s') = None \<and>
           dropdown_values (serverGroupDropdown s') = [] \<and>
           dropdown_value (serverGroupDropdown s') = None \<and>
           \<not> azureSubscriptionLoader_loading s' \<and>
           \<not> serverGroupLoader_loading s' \<and>
           map fst (issued s') = map fst (issued s) @ [GetAzurecoreApi, GetSubscriptions (accountsMap s (name cur))]"
proof -
  define s0 where "s0 = issue (GetSubscriptions (accountsMap s (name cur)))
                          (issue GetAzurecoreApi (s\<lparr>azureSubscriptionLoader_loading := True\<rparr>))"
  define s1 where "s1 = s0\<lparr>azureSubscriptionsDropdown :=
                             updateProperties_values (azureSubscriptionsDropdown s0) [],
                           azureSubscriptionLoader_loading := False\<rparr>"
  define s' where "s' = s1\<lparr>serverGroupLoader_loading := True,
                           serverGroupDropdown := updateProperties_values (serverGroupDropdown s1) [],
                           serverGroupLoader_loading := False\<rparr>"
  have step: "populateAzureSubscriptionsDropdown e s = populateServerGroupDropdown e s1"
    using assms
    by (auto simp: populateAzureSubscriptionsDropdown_def
        populateAzureSubscriptionsDropdown_resume_def Let_def s1_def s0_def issue_def)
  have upstream: "dropdown_value (azureSubscriptionsDropdown s1) = None"
    by (simp add: s1_def updateProperties_values_def)
  have reload: "populateServerGroupDropdown e s1 = Returns () s'"
    using upstream by (simp add: populateServerGroupDropdown_def Let_def s'_def)
  have fields: "dropdown_values (azureSubscriptionsDropdown s') = []"
    "dropdown_value (azureSubscriptionsDropdown s') = None"
    "dropdown_values (serverGroupDropdown s') = []"
    "dropdown_value (serverGroupDropdown s') = None"
    "\<not> azureSubscriptionLoader_loading s'"
    "\<not> serverGroupLoader_loading s'"
    by (simp_all add: s'_def s1_def updateProperties_values_def)
  have history: "map fst (issued s') =
      map fst (issued s) @ [GetAzurecoreApi, GetSubscriptions (accountsMap s (name cur))]"
    by (simp add: s'_def s1_def s0_def issue_def)
  from step upstream reload fields history show ?thesis
    by blast
qed

theorem no_subscriptions_clears_and_reloads_servers_witness:
  "thrown (populateAzureSubscriptionsDropdown exampleEnv bobChosenPage) = None \<and>
   dropdown_values (azureSubscriptionsDropdown
      (state_of (populateAzureSubscriptionsDropdown exampleEnv bobChosenPage))) = [] \<and>
   dropdown_values (serverGroupDropdown
      (state_of (populateAzureSubscriptionsDropdown exampleEnv bobChosenPage))) = []"
proof -
  have a: "getAzurecoreApi exampleEnv = Inr ()"
    by (simp add: exampleEnv_def)
  have b: "dropdown_value (azureAccountsDropdown bobChosenPage) = Some (accountCategoryValue accountB)"
    by (simp add: bobChosenPage_def)
  have c: "getSubscriptions exampleEnv (accountsMap bobChosenPage (name (accountCategoryValue accountB)))
             = Inr (Some [])"
    by (simp add: bobChosenPage_def settledPage_maps exampleEnv_def accountCategoryValue_def
        accountA_def accountB_def)
  have d: "Some [] = None \<or> Some ([] :: AzureResourceSubscription list) = Some []"
    by simp
  from no_subscriptions_clears_and_reloads_servers [OF a b c d]
  show ?thesis
    by auto
qed

subsection \<open>C8: the HTTP request\<close>

text \<open>
  C8: \<^verbatim>\<open>getRequest\<close> never throws because of a status: whatever response the network
  delivers, with whatever status, is returned unchanged (the token being there to build
  the header).
\<close>

theorem getRequest_never_throws_on_status:
  "thrown (getRequest e url s) \<noteq> Some (BadStatus n) \<and>
   (securityToken (model s) = Some token \<and>
    transport e url (headers (requestConfig token)) = Inr response
    \<longrightarrow> getRequest e url s = Returns response (issue (HttpGet url) s))"
  by (auto simp: getRequest_def axios_get_def requestConfig_def Let_def
      split: option.splits sum.splits)

theorem getRequest_never_throws_on_status_witness:
  "securityToken (model settledPage) = Some ''secret'' \<and>
   returned (getRequest notFoundEnv ''https://management.azure.com/'' settledPage)
     = Some \<lparr>status = 404, data = None\<rparr>"
proof -
  have a: "securityToken (model settledPage) = Some ''secret''"
    by (simp add: settledPage_model)
  have b: "transport notFoundEnv ''https://management.azure.com/'' (headers (requestConfig ''secret''))
             = Inr \<lparr>status = 404, data = None\<rparr>"
    by (simp add: notFoundEnv_def)
  from a b
    getRequest_never_throws_on_status
      [of notFoundEnv "''https://management.azure.com/''" settledPage 0 "''secret''"
        "\<lparr>status = 404, data = None\<rparr>"]
  show ?thesis by simp
qed

subsection \<open>C9: navigation\<close>

lemma formValidation_liveValidation:
  "returned (formValidation (s\<lparr>liveValidation := b\<rparr>)) = returned (formValidation s)"
  by (simp add: formValidation_def Let_def split: option.splits)

text \<open>
  C9: the validator registered by \<^verbatim>\<open>onEnter\<close> answers true to every navigation to an
  earlier page, with the state untouched (nothing is validated); on any other navigation
  it answers false exactly when \<^verbatim>\<open>formValidation\<close> returns a non-empty message, and true
  exactly when it returns the empty one.
\<close>

theorem navigationValidator_backward_free_forward_validated:
  "(n < l \<longrightarrow> onEnter_navigationValidator s n l = Returns True s) \<and>
   (\<not> n < l \<longrightarrow>
      (returned (onEnter_navigationValidator s n l) = Some False)
        = (\<exists>m. returned (formValidation s) = Some m \<and> m \<noteq> []) \<and>
      (returned (onEnter_navigationValidator s n l) = Some True)
        = (returned (formValidation s) = Some []))"
proof -
  have eq: "returned (formValidation (s\<lparr>liveValidation := True\<rparr>)) = returned (formValidation s)"
    by (rule formValidation_liveValidation)
  show ?thesis
  proof (cases "formValidation (s\<lparr>liveValidation := True\<rparr>)")
    case (Returns m s2)
    with eq have "returned (formValidation s) = Some m" by simp
    with Returns show ?thesis
      by (simp add: onEnter_navigationValidator_def Let_def)
  next
    case (Throws err s2)
    with eq have "returned (formValidation s) = None" by simp
    with Throws show ?thesis
      by (simp add: onEnter_navigationValidator_def Let_def)
  qed
qed

theorem navigationValidator_witness:
  "onEnter_navigationValidator sentinelPage 0 1 = Returns True sentinelPage \<and>
   returned (onEnter_navigationValidator sentinelPage 1 0) = Some False \<and>
   returned (onEnter_navigationValidator serverOnlyPage 1 0) = Some True"
proof -
  have a: "returned (formValidation sentinelPage) = Some noServersMessage"
    by (simp add: formValidation_def sentinelPage_def updateProperties_values_def noServersFound_def)
  have b: "returned (formValidation serverOnlyPage) = Some []"
    by (simp add: formValidation_def serverOnlyPage_def updateProperties_values_def
        serverCategoryValue_def serverSrv1_def)
  have c: "noServersMessage \<noteq> []"
    by (simp add: noServersMessage_def)
  show ?thesis
    using a b c
      navigationValidator_backward_free_forward_validated [of 0 1 sentinelPage]
      navigationValidator_backward_free_forward_validated [of 1 0 sentinelPage]
      navigationValidator_backward_free_forward_validated [of 1 0 serverOnlyPage]
    by simp
qed

subsection \<open>C10: notebook content\<close>

lemma isNotebookContent_try_object:
  "isNotebookContent_try parse s = Inr True \<longleftrightarrow> (\<exists>doc. parse s = Some doc \<and> notebookSchema doc)"
proof (cases "parse s")
  case None
  then show ?thesis by (simp add: isNotebookContent_try_def)
next
  case (Some doc)
  then show ?thesis
    by (cases doc) (auto simp: isNotebookContent_try_def notebookSchema_def)
qed

text \<open>
  C10: for every input string \<^verbatim>\<open>isNotebookContent\<close> returns a boolean and never throws; it
  returns true exactly when the string parses to a document whose \<^verbatim>\<open>metadata\<close> has type
  object, \<^verbatim>\<open>nbformat\<close> and \<^verbatim>\<open>nbformat_minor\<close> have type number and \<^verbatim>\<open>cells\<close> has type object
  (types as \<^verbatim>\<open>typeof\<close> names them), and false on a parse failure or on any missing or
  mistyped member.
\<close>

theorem isNotebookContent_characterised:
  "(\<exists>b. isNotebookContent parse s = Inr b) \<and>
   (isNotebookContent parse s = Inr True) = (\<exists>doc. parse s = Some doc \<and> notebookSchema doc) \<and>
   (isNotebookContent parse s = Inr False) = (\<not> (\<exists>doc. parse s = Some doc \<and> notebookSchema doc))"
proof -
  have t: "(isNotebookContent parse s = Inr True) = (isNotebookContent_try parse s = Inr True)"
    by (auto simp: isNotebookContent_def split: sum.splits bool.splits)
  have f: "(isNotebookContent parse s = Inr False) = (isNotebookContent_try parse s \<noteq> Inr True)"
    by (auto simp: isNotebookContent_def split: sum.splits bool.splits)
  have e: "\<exists>b. isNotebookContent parse s = Inr b"
    by (auto simp: isNotebookContent_def split: sum.splits bool.splits)
  show ?thesis
    using t f e isNotebookContent_try_object [of parse s] by simp
qed

theorem isNotebookContent_characterised_witness:
  "isNotebookContent (\<lambda>_. Some notebookDocument) ''{}'' = Inr True \<and>
   isNotebookContent (\<lambda>_. Some JNull) ''null'' = Inr False \<and>
   isNotebookContent (\<lambda>_. None) ''{'' = Inr False"
proof -
  have a: "notebookSchema notebookDocument"
    by (simp add: notebookSchema_def notebookDocument_def)
  have b: "\<not> notebookSchema JNull"
    by (simp add: notebookSchema_def)
  show ?thesis
    using a b
      isNotebookContent_characterised [of "\<lambda>_. Some notebookDocument" "''{}''"]
      isNotebookContent_characterised [of "\<lambda>_. Some JNull" "''null''"]
      isNotebookContent_characterised [of "\<lambda>_. None" "''{''"]
    by simp
qed

end
